theory Spec2Isabelle
  imports
    Complex_Main
    "HOL-Library.AList"
    "HOL-Library.Sublist"
    "HOL-Library.Product_Lexorder"
    "HOL-Library.Multiset"
begin

section \<open>Shared Python notions\<close>

text \<open>
  The three modules of \<^verbatim>\<open>house_victoria_mcp/tt\<close> keep their entities in
  Python dictionaries, which iterate in insertion order. A dictionary is therefore an
  association list with distinct keys: \<open>map_of\<close> is \<^verbatim>\<open>d.get(k)\<close>,
  \<open>AList.update\<close> is \<^verbatim>\<open>d[k] = v\<close> (an existing key keeps its place, a new
  one goes last) and \<open>AList.delete\<close> is \<^verbatim>\<open>del d[k]\<close>.

  Python floats are modelled as reals (rounding is not modelled), \<^verbatim>\<open>datetime\<close>
  values and event-loop times as integer clock ticks handed to each operation as
  \<open>now\<close>, and the SHA-256 based id generators as a parameter \<open>gen\<close> from the name
  and the clock to the id.

  Record fields carry a prefix (\<open>t_\<close> for Task, \<open>s_\<close> for WorkflowStep, \<open>w_\<close> for
  Workflow, \<open>u_\<close> for ProgressUpdate, \<open>m_\<close> for ProgressMeter), since the Python classes
  share field names such as \<^verbatim>\<open>id\<close> and \<^verbatim>\<open>status\<close>.
\<close>

datatype pyval =
    PNone
  | PBool bool
  | PInt int
  | PFloat real
  | PStr string
  | PList "pyval list"
  | PDict "(string \<times> pyval) list"
  | PTask string

text \<open>Python truthiness, as used by \<^verbatim>\<open>x if result else y\<close>. \<open>PTask i\<close> stands for a
  reference to the Task object with id \<open>i\<close>; a dataclass instance is always truthy.\<close>

fun truthy :: "pyval \<Rightarrow> bool" where
  "truthy PNone = False"
| "truthy (PBool b) = b"
| "truthy (PInt i) = (i \<noteq> 0)"
| "truthy (PFloat r) = (r \<noteq> 0)"
| "truthy (PStr s) = (s \<noteq> [])"
| "truthy (PList xs) = (xs \<noteq> [])"
| "truthy (PDict kvs) = (kvs \<noteq> [])"
| "truthy (PTask i) = True"

text \<open>How an awaited caller-supplied coroutine resolves: it returns a value, raises an
  \<^verbatim>\<open>Exception\<close> whose \<^verbatim>\<open>str(e)\<close> is the message, or is cancelled while suspended.\<close>

datatype call_outcome = Returns pyval | Raises string | Cancelled

datatype exc =
    ValueError string
  | KeyError string
  | AttributeError string
  | ZeroDivisionError string
  | UserError string
  | CancelledError

text \<open>\<^verbatim>\<open>except Exception\<close> catches everything but \<^verbatim>\<open>asyncio.CancelledError\<close>, which
  derives from \<^verbatim>\<open>BaseException\<close>.\<close>

fun is_Exception :: "exc \<Rightarrow> bool" where
  "is_Exception CancelledError = False"
| "is_Exception _ = True"

fun str_of :: "exc \<Rightarrow> string" where
  "str_of (ValueError m) = m"
| "str_of (KeyError k) = CHR 0x27 # k @ [CHR 0x27]"
| "str_of (AttributeError m) = m"
| "str_of (ZeroDivisionError m) = m"
| "str_of (UserError m) = m"
| "str_of CancelledError = []"

text \<open>\<^verbatim>\<open>sep.join(xs)\<close>\<close>

fun join :: "string \<Rightarrow> string list \<Rightarrow> string" where
  "join sep [] = []"
| "join sep [x] = x"
| "join sep (x # y # ys) = x @ sep @ join sep (y # ys)"

section \<open>Task Manager (\<^verbatim>\<open>tt/task_manager.py\<close>)\<close>

datatype TaskStatus = PENDING | IN_PROGRESS | COMPLETED | FAILED | CANCELLED

datatype TaskPriority = LOW | MEDIUM | HIGH | URGENT

record Task =
  t_id :: string
  t_name :: string
  t_description :: string
  t_status :: TaskStatus
  t_priority :: TaskPriority
  t_created_at :: int
  t_updated_at :: int
  t_completed_at :: "int option"
  t_assigned_to :: "string option"
  t_tags :: "string list"
  t_progress :: real
  t_result :: "(string \<times> pyval) list option"
  t_error :: "string option"
  t_metadata :: "(string \<times> pyval) list"
  t_dependencies :: "string list"
  t_workflow_id :: "string option"

text \<open>
  \<open>tasks\<close> and \<open>running_tasks\<close> are the two dictionaries of the class. An
  \<^verbatim>\<open>asyncio.Task\<close> is a handle, a natural number: \<open>spawned\<close> lists every unit
  created by \<^verbatim>\<open>asyncio.create_task\<close> (the handle is its index) with the task id and
  the execution function its wrapper closes over, the function given by how it resolves;
  \<open>cancel_requested\<close> lists the handles on which \<^verbatim>\<open>.cancel()\<close> was called.
\<close>

record TaskManager =
  tasks :: "(string \<times> Task) list"
  running_tasks :: "(string \<times> nat) list"
  spawned :: "(string \<times> call_outcome) list"
  cancel_requested :: "nat list"

definition init_TaskManager :: TaskManager where
  "init_TaskManager = \<lparr>tasks = [], running_tasks = [], spawned = [], cancel_requested = []\<rparr>"

text \<open>\<^verbatim>\<open>tags or []\<close> and its siblings: \<^verbatim>\<open>None\<close> and the empty value both give the
  empty value.\<close>

definition or_empty :: "'a list option \<Rightarrow> 'a list" where
  "or_empty x = (case x of None \<Rightarrow> [] | Some v \<Rightarrow> v)"

text \<open>\<^verbatim>\<open>create_task\<close>. The result is a sum, \<open>Inl\<close> for a raised exception, as for
  every operation of the model that a caller may see fail; the source has no
  \<^verbatim>\<open>raise\<close> and no check of its arguments here, so the result is always \<open>Inr\<close>.\<close>

definition create_task ::
  "(string \<Rightarrow> int \<Rightarrow> string) \<Rightarrow> int \<Rightarrow> TaskManager \<Rightarrow> string \<Rightarrow> string \<Rightarrow> TaskPriority \<Rightarrow>
   string option \<Rightarrow> string list option \<Rightarrow> (string \<times> pyval) list option \<Rightarrow>
   string list option \<Rightarrow> string option \<Rightarrow> exc + Task \<times> TaskManager" where
  "create_task gen now tm name description priority assigned_to tags metadata dependencies
     workflow_id =
     (let task_id = gen name now;
          task = \<lparr>t_id = task_id, t_name = name, t_description = description,
                  t_status = PENDING, t_priority = priority,
                  t_created_at = now, t_updated_at = now, t_completed_at = None,
                  t_assigned_to = assigned_to, t_tags = or_empty tags,
                  t_progress = 0, t_result = None, t_error = None,
                  t_metadata = or_empty metadata, t_dependencies = or_empty dependencies,
                  t_workflow_id = workflow_id\<rparr>
      in Inr (task, tm\<lparr>tasks := AList.update task_id task (tasks tm)\<rparr>))"

definition get_task :: "TaskManager \<Rightarrow> string \<Rightarrow> Task option" where
  "get_task tm task_id = map_of (tasks tm) task_id"

text \<open>Cancelling and deregistering the unit registered under a task id, if there is one
  (the block shared by \<^verbatim>\<open>update_task_status\<close> and \<^verbatim>\<open>delete_task\<close>).\<close>

definition stop_running :: "string \<Rightarrow> TaskManager \<Rightarrow> TaskManager" where
  "stop_running task_id tm =
     (case map_of (running_tasks tm) task_id of
        None \<Rightarrow> tm
      | Some h \<Rightarrow> tm\<lparr>cancel_requested := cancel_requested tm @ [h],
                     running_tasks := AList.delete task_id (running_tasks tm)\<rparr>)"

definition update_task_status ::
  "int \<Rightarrow> TaskManager \<Rightarrow> string \<Rightarrow> TaskStatus \<Rightarrow> real option \<Rightarrow>
   (string \<times> pyval) list option \<Rightarrow> string option \<Rightarrow> Task option \<times> TaskManager" where
  "update_task_status now tm task_id status progress result error =
     (case map_of (tasks tm) task_id of
        None \<Rightarrow> (None, tm)
      | Some task \<Rightarrow>
          (let t1 = task\<lparr>t_status := status, t_updated_at := now\<rparr>;
               t2 = (case progress of None \<Rightarrow> t1
                     | Some p \<Rightarrow> t1\<lparr>t_progress := max 0 (min 100 p)\<rparr>);
               t3 = (case result of None \<Rightarrow> t2 | Some r \<Rightarrow> t2\<lparr>t_result := Some r\<rparr>);
               t4 = (case error of None \<Rightarrow> t3 | Some e \<Rightarrow> t3\<lparr>t_error := Some e\<rparr>);
               t5 = (if status = COMPLETED
                     then t4\<lparr>t_completed_at := Some now, t_progress := 100\<rparr> else t4);
               tm1 = tm\<lparr>tasks := AList.update task_id t5 (tasks tm)\<rparr>;
               tm2 = (if status = COMPLETED then stop_running task_id tm1 else tm1)
           in (Some t5, tm2)))"

text \<open>\<^verbatim>\<open>list_tasks\<close>. A filter is applied when its argument is truthy: the enum members
  are non-empty strings, so \<^verbatim>\<open>if status:\<close> and \<^verbatim>\<open>if priority:\<close> test for
  \<^verbatim>\<open>None\<close>, while \<^verbatim>\<open>if assigned_to:\<close>, \<^verbatim>\<open>if workflow_id:\<close> and
  \<^verbatim>\<open>if tags:\<close> also skip the empty string and the empty list.\<close>

fun priority_order :: "TaskPriority \<Rightarrow> nat" where
  "priority_order URGENT = 0"
| "priority_order HIGH = 1"
| "priority_order MEDIUM = 2"
| "priority_order LOW = 3"

definition sort_key_of :: "Task \<Rightarrow> nat \<times> int" where
  "sort_key_of t = (priority_order (t_priority t), t_created_at t)"

definition status_applies :: "TaskStatus option \<Rightarrow> Task \<Rightarrow> bool" where
  "status_applies f t = (case f of None \<Rightarrow> True | Some s \<Rightarrow> t_status t = s)"

definition priority_applies :: "TaskPriority option \<Rightarrow> Task \<Rightarrow> bool" where
  "priority_applies f t = (case f of None \<Rightarrow> True | Some p \<Rightarrow> t_priority t = p)"

definition assigned_applies :: "string option \<Rightarrow> Task \<Rightarrow> bool" where
  "assigned_applies f t =
     (case f of None \<Rightarrow> True
      | Some a \<Rightarrow> (if a = [] then True else t_assigned_to t = Some a))"

definition workflow_applies :: "string option \<Rightarrow> Task \<Rightarrow> bool" where
  "workflow_applies f t =
     (case f of None \<Rightarrow> True
      | Some w \<Rightarrow> (if w = [] then True else t_workflow_id t = Some w))"

definition tags_apply :: "string list option \<Rightarrow> Task \<Rightarrow> bool" where
  "tags_apply f t =
     (case f of None \<Rightarrow> True
      | Some ts \<Rightarrow> (if ts = [] then True else list_ex (\<lambda>tag. tag \<in> set (t_tags t)) ts))"

definition list_tasks ::
  "TaskManager \<Rightarrow> TaskStatus option \<Rightarrow> TaskPriority option \<Rightarrow> string option \<Rightarrow>
   string option \<Rightarrow> string list option \<Rightarrow> Task list" where
  "list_tasks tm status priority assigned_to workflow_id tags =
     (let ts0 = map snd (tasks tm);
          ts1 = filter (status_applies status) ts0;
          ts2 = filter (priority_applies priority) ts1;
          ts3 = filter (assigned_applies assigned_to) ts2;
          ts4 = filter (workflow_applies workflow_id) ts3;
          ts5 = filter (tags_apply tags) ts4
      in sort_key sort_key_of ts5)"

definition delete_task :: "TaskManager \<Rightarrow> string \<Rightarrow> bool \<times> TaskManager" where
  "delete_task tm task_id =
     (case map_of (tasks tm) task_id of
        None \<Rightarrow> (False, tm)
      | Some task \<Rightarrow>
          (True, stop_running task_id (tm\<lparr>tasks := AList.delete task_id (tasks tm)\<rparr>)))"

text \<open>\<^verbatim>\<open>execute_task\<close>, up to its \<^verbatim>\<open>return\<close>: the dependency check, and either the
  soft refusal or the launch of the wrapper as a new unit. The wrapper itself runs
  later, as \<open>execute_wrapper\<close>.\<close>

definition dep_unmet :: "TaskManager \<Rightarrow> string \<Rightarrow> bool" where
  "dep_unmet tm dep_id =
     (case map_of (tasks tm) dep_id of
        None \<Rightarrow> True
      | Some dep_task \<Rightarrow> t_status dep_task \<noteq> COMPLETED)"

definition pending_deps :: "TaskManager \<Rightarrow> Task \<Rightarrow> string list" where
  "pending_deps tm task = filter (dep_unmet tm) (t_dependencies task)"

definition execute_task ::
  "int \<Rightarrow> TaskManager \<Rightarrow> string \<Rightarrow> call_outcome \<Rightarrow> Task option \<times> TaskManager" where
  "execute_task now tm task_id execution_func =
     (case map_of (tasks tm) task_id of
        None \<Rightarrow> (None, tm)
      | Some task \<Rightarrow>
          (let pending = pending_deps tm task in
           if pending \<noteq> [] then
             update_task_status now tm task_id PENDING None None
               (Some (''Dependencies not completed: '' @ join '', '' pending))
           else
             (let (r, tm1) = update_task_status now tm task_id IN_PROGRESS (Some 0) None None
              in (r, tm1\<lparr>running_tasks :=
                           AList.update task_id (length (spawned tm1)) (running_tasks tm1),
                         spawned := spawned tm1 @ [(task_id, execution_func)]\<rparr>))))"

text \<open>\<^verbatim>\<open>_execute_wrapper\<close>, the body of the unit launched by \<open>execute_task\<close>, run
  with the outcome of \<^verbatim>\<open>await execution_func(task)\<close>.\<close>

definition execute_wrapper :: "int \<Rightarrow> TaskManager \<Rightarrow> string \<Rightarrow> call_outcome \<Rightarrow> TaskManager" where
  "execute_wrapper now tm task_id outcome =
     (case outcome of
        Returns result \<Rightarrow>
          snd (update_task_status now tm task_id COMPLETED (Some 100)
                 (Some (if truthy result then [(''data'', result)] else [])) None)
      | Cancelled \<Rightarrow> snd (update_task_status now tm task_id CANCELLED None None None)
      | Raises error_msg \<Rightarrow>
          snd (update_task_status now tm task_id FAILED None None (Some error_msg)))"

text \<open>The operations that change a Task Manager, and the managers they lead to from the
  initial one. \<open>OpWrapper\<close> is a launched wrapper reaching its end with some outcome of its
  execution function; queries change nothing and are left out.\<close>

datatype tm_op =
    OpCreate int string string TaskPriority "string option" "string list option"
      "(string \<times> pyval) list option" "string list option" "string option"
  | OpUpdate int string TaskStatus "real option" "(string \<times> pyval) list option" "string option"
  | OpDelete string
  | OpExecute int string call_outcome
  | OpWrapper int string call_outcome

fun apply_op :: "(string \<Rightarrow> int \<Rightarrow> string) \<Rightarrow> TaskManager \<Rightarrow> tm_op \<Rightarrow> TaskManager" where
  "apply_op gen tm (OpCreate now name description priority assigned_to tags metadata deps wfid) =
     (case create_task gen now tm name description priority assigned_to tags metadata deps wfid of
        Inl e \<Rightarrow> tm
      | Inr (task, tm') \<Rightarrow> tm')"
| "apply_op gen tm (OpUpdate now task_id status progress result error) =
     snd (update_task_status now tm task_id status progress result error)"
| "apply_op gen tm (OpDelete task_id) = snd (delete_task tm task_id)"
| "apply_op gen tm (OpExecute now task_id execution_func) =
     snd (execute_task now tm task_id execution_func)"
| "apply_op gen tm (OpWrapper now task_id outcome) = execute_wrapper now tm task_id outcome"

definition run_ops :: "(string \<Rightarrow> int \<Rightarrow> string) \<Rightarrow> tm_op list \<Rightarrow> TaskManager" where
  "run_ops gen ops = foldl (apply_op gen) init_TaskManager ops"

section \<open>Workflow Engine (\<^verbatim>\<open>tt/workflow_engine.py\<close>)\<close>

datatype WorkflowStatus =
  WS_PENDING | WS_RUNNING | WS_PAUSED | WS_COMPLETED | WS_FAILED | WS_CANCELLED

datatype WorkflowStepType = TASK | CONDITION | PARALLEL | DELAY | TOOL_CALL

text \<open>
  \<^verbatim>\<open>step_config\<close> is a dictionary read under eight keys. A key read with
  \<^verbatim>\<open>.get(key, default)\<close> whose default is the empty value is a field holding that
  value when the key is absent (\<open>cfg_description\<close>, \<open>cfg_tool_args\<close>, \<open>cfg_context\<close>,
  \<open>cfg_steps\<close>, and \<open>sub_config\<close> of a nested step); every other key is an optional
  field. A callable is given by how it resolves when called on the arguments the same
  configuration holds; a tool of the registry is a function of its keyword arguments.
\<close>

datatype step_config = StepConfig
    (cfg_description: string)
    (cfg_execution_func: "call_outcome option")
    (cfg_tool_name: "string option")
    (cfg_tool_args: "(string \<times> pyval) list")
    (cfg_seconds: "real option")
    (cfg_condition: "call_outcome option")
    (cfg_context: "(string \<times> pyval) list")
    (cfg_steps: "substep list")
and substep = SubStep
    (sub_id: "string option")
    (sub_name: "string option")
    (sub_type: "WorkflowStepType option")
    (sub_config: step_config)

definition empty_config :: step_config where
  "empty_config = StepConfig [] None None [] None None [] []"

record WorkflowStep =
  s_id :: string
  s_name :: string
  s_step_type :: WorkflowStepType
  s_step_config :: step_config
  s_depends_on :: "string list"
  s_status :: TaskStatus
  s_result :: "pyval option"
  s_error :: "string option"

record Workflow =
  w_id :: string
  w_name :: string
  w_description :: string
  w_steps :: "WorkflowStep list"
  w_status :: WorkflowStatus
  w_created_at :: int
  w_started_at :: "int option"
  w_completed_at :: "int option"
  w_progress :: real
  w_metadata :: "(string \<times> pyval) list"

text \<open>
  The engine with its task manager and two dictionaries. Units created by
  \<^verbatim>\<open>asyncio.create_task\<close> are handles again: \<open>wf_spawned\<close> counts them and
  \<open>wf_cancel_requested\<close> lists those on which \<^verbatim>\<open>.cancel()\<close> was called.
  \<open>sleeps_before_cancel\<close> is the schedule of the environment: \<open>Some n\<close> when the running
  unit is cancelled in its \<open>n+1\<close>st \<^verbatim>\<open>asyncio.sleep\<close> from now, \<open>None\<close> when it is not.
\<close>

record WorkflowEngine =
  task_manager :: TaskManager
  workflows :: "(string \<times> Workflow) list"
  running_workflows :: "(string \<times> nat) list"
  wf_spawned :: nat
  wf_cancel_requested :: "nat list"
  sleeps_before_cancel :: "nat option"

definition init_WorkflowEngine :: WorkflowEngine where
  "init_WorkflowEngine =
     \<lparr>task_manager = init_TaskManager, workflows = [], running_workflows = [],
      wf_spawned = 0, wf_cancel_requested = [], sleeps_before_cancel = None\<rparr>"

type_synonym tool_registry = "(string \<times> ((string \<times> pyval) list \<Rightarrow> call_outcome)) list"

definition create_workflow ::
  "(string \<Rightarrow> int \<Rightarrow> string) \<Rightarrow> int \<Rightarrow> WorkflowEngine \<Rightarrow> string \<Rightarrow> string \<Rightarrow>
   WorkflowStep list \<Rightarrow> (string \<times> pyval) list option \<Rightarrow> Workflow \<times> WorkflowEngine" where
  "create_workflow gen now eng name description steps metadata =
     (let workflow_id = gen name now;
          workflow = \<lparr>w_id = workflow_id, w_name = name, w_description = description,
                      w_steps = steps, w_status = WS_PENDING, w_created_at = now,
                      w_started_at = None, w_completed_at = None, w_progress = 0,
                      w_metadata = or_empty metadata\<rparr>
      in (workflow, eng\<lparr>workflows := AList.update workflow_id workflow (workflows eng)\<rparr>))"

definition get_workflow :: "WorkflowEngine \<Rightarrow> string \<Rightarrow> Workflow option" where
  "get_workflow eng workflow_id = map_of (workflows eng) workflow_id"

text \<open>\<^verbatim>\<open>await asyncio.sleep(...)\<close>: the one place where the schedule cancels the unit.\<close>

definition sleep :: "WorkflowEngine \<Rightarrow> exc option \<times> WorkflowEngine" where
  "sleep eng =
     (case sleeps_before_cancel eng of
        None \<Rightarrow> (None, eng)
      | Some 0 \<Rightarrow> (Some CancelledError, eng\<lparr>sleeps_before_cancel := None\<rparr>)
      | Some (Suc n) \<Rightarrow> (None, eng\<lparr>sleeps_before_cancel := Some n\<rparr>))"

definition get_step_by_id :: "Workflow \<Rightarrow> string \<Rightarrow> WorkflowStep option" where
  "get_step_by_id workflow step_id = find (\<lambda>step. s_id step = step_id) (w_steps workflow)"

text \<open>The dependency loop of \<^verbatim>\<open>_execute_workflow_task\<close>: one sleep for each dependency
  that is missing or not completed, and nothing else (its \<^verbatim>\<open>continue\<close> belongs to the
  inner loop).\<close>

fun check_dependencies ::
  "Workflow \<Rightarrow> string list \<Rightarrow> WorkflowEngine \<Rightarrow> exc option \<times> WorkflowEngine" where
  "check_dependencies workflow [] eng = (None, eng)"
| "check_dependencies workflow (dep_id # deps) eng =
     (if (case get_step_by_id workflow dep_id of
            None \<Rightarrow> True
          | Some dep_step \<Rightarrow> s_status dep_step \<noteq> COMPLETED)
      then (case sleep eng of
              (Some e, eng1) \<Rightarrow> (Some e, eng1)
            | (None, eng1) \<Rightarrow> check_dependencies workflow deps eng1)
      else check_dependencies workflow deps eng)"

text \<open>
  How \<^verbatim>\<open>_execute_step\<close> leaves: \<open>StepDone v\<close> at its end, with the step
  \<^verbatim>\<open>COMPLETED\<close> and \<open>v\<close> its result; \<open>StepFailed e\<close> through
  \<^verbatim>\<open>except Exception\<close>, with the step \<^verbatim>\<open>FAILED\<close>, \<^verbatim>\<open>str(e)\<close> its error and
  \<open>e\<close> raised again; \<open>StepAborted e\<close> when \<open>e\<close> is not an \<^verbatim>\<open>Exception\<close> and passes
  the handler, the step left \<^verbatim>\<open>IN_PROGRESS\<close>.
\<close>

datatype step_exit = StepDone pyval | StepFailed exc | StepAborted exc

definition raise_in_step :: "exc \<Rightarrow> step_exit" where
  "raise_in_step e = (if is_Exception e then StepFailed e else StepAborted e)"

definition outcome_in_step :: "call_outcome \<Rightarrow> (pyval \<Rightarrow> pyval) \<Rightarrow> step_exit" where
  "outcome_in_step outcome wrap =
     (case outcome of
        Returns v \<Rightarrow> StepDone (wrap v)
      | Raises m \<Rightarrow> raise_in_step (UserError m)
      | Cancelled \<Rightarrow> raise_in_step CancelledError)"

text \<open>The exception \<^verbatim>\<open>asyncio.gather\<close> raises for the exits of the units it awaited:
  the first one in the order of the list.\<close>

fun first_raised :: "step_exit list \<Rightarrow> exc option" where
  "first_raised [] = None"
| "first_raised (StepDone v # xs) = first_raised xs"
| "first_raised (StepFailed e # xs) = Some e"
| "first_raised (StepAborted e # xs) = Some e"

text \<open>
  \<^verbatim>\<open>_execute_step\<close> on the fields of a step, and the units of a
  \<^verbatim>\<open>PARALLEL\<close> step. The units are run one after the other in the order of the list
  (one of the schedules of \<^verbatim>\<open>asyncio.gather\<close>), each to its end; a unit returns
  \<^verbatim>\<open>None\<close>, as \<^verbatim>\<open>_execute_step\<close> has no \<^verbatim>\<open>return\<close>.
\<close>

fun execute_step_fields ::
  "tool_registry \<Rightarrow> (string \<Rightarrow> int \<Rightarrow> string) \<Rightarrow> int \<Rightarrow> string \<Rightarrow> string \<Rightarrow> WorkflowStepType \<Rightarrow>
   step_config \<Rightarrow> WorkflowEngine \<Rightarrow> step_exit \<times> WorkflowEngine"
and execute_parallel_steps ::
  "tool_registry \<Rightarrow> (string \<Rightarrow> int \<Rightarrow> string) \<Rightarrow> int \<Rightarrow> string \<Rightarrow> substep list \<Rightarrow>
   WorkflowEngine \<Rightarrow> step_exit list \<times> WorkflowEngine" where
  "execute_step_fields reg gen now step_id name TASK
     (StepConfig description execution_func tool_name tool_args seconds condition context steps) eng =
     (case create_task gen now (task_manager eng) name description MEDIUM None None
             (Some [(''step_id'', PStr step_id), (''workflow'', PBool True)]) None None of
        Inl e \<Rightarrow> (raise_in_step e, eng)
      | Inr (task, tm1) \<Rightarrow>
          (case execution_func of
             Some f \<Rightarrow>
               (case execute_task now tm1 (t_id task) f of
                  (None, tm2) \<Rightarrow> (StepDone PNone, eng\<lparr>task_manager := tm2\<rparr>)
                | (Some t, tm2) \<Rightarrow> (StepDone (PTask (t_id t)), eng\<lparr>task_manager := tm2\<rparr>))
           | None \<Rightarrow>
               (StepDone (PDict [(''task_id'', PStr (t_id task))]),
                eng\<lparr>task_manager := tm1\<rparr>)))"
| "execute_step_fields reg gen now step_id name TOOL_CALL
     (StepConfig description execution_func tool_name tool_args seconds condition context steps) eng =
     (case tool_name of
        None \<Rightarrow> (raise_in_step (KeyError ''tool_name''), eng)
      | Some tn \<Rightarrow>
          (case map_of reg tn of
             None \<Rightarrow> (raise_in_step (ValueError (''Tool not found: '' @ tn)), eng)
           | Some tool_func \<Rightarrow> (outcome_in_step (tool_func tool_args) (\<lambda>v. v), eng)))"
| "execute_step_fields reg gen now step_id name DELAY
     (StepConfig description execution_func tool_name tool_args seconds condition context steps) eng =
     (let delay_seconds = (case seconds of None \<Rightarrow> 1 | Some d \<Rightarrow> d) in
      case sleep eng of
        (Some e, eng1) \<Rightarrow> (raise_in_step e, eng1)
      | (None, eng1) \<Rightarrow> (StepDone (PDict [(''delayed'', PFloat delay_seconds)]), eng1))"
| "execute_step_fields reg gen now step_id name CONDITION
     (StepConfig description execution_func tool_name tool_args seconds condition context steps) eng =
     (case condition of
        None \<Rightarrow> (raise_in_step (ValueError ''Condition function not provided''), eng)
      | Some condition_func \<Rightarrow>
          (outcome_in_step condition_func (\<lambda>v. PDict [(''condition_result'', v)]), eng))"
| "execute_step_fields reg gen now step_id name PARALLEL
     (StepConfig description execution_func tool_name tool_args seconds condition context steps) eng =
     (case execute_parallel_steps reg gen now step_id steps eng of
        (exits, eng1) \<Rightarrow>
          (case first_raised exits of
             Some e \<Rightarrow> (raise_in_step e, eng1)
           | None \<Rightarrow>
               (StepDone (PDict [(''parallel_results'', PList (map (\<lambda>x. PNone) exits))]), eng1)))"
| "execute_parallel_steps reg gen now step_id [] eng = ([], eng)"
| "execute_parallel_steps reg gen now step_id (SubStep sid sname stype sconfig # rest) eng =
     (case (case sid of
              None \<Rightarrow> (StepFailed (KeyError ''id''), eng)
            | Some i \<Rightarrow>
                execute_step_fields reg gen now (step_id @ ''_'' @ i)
                  (case sname of None \<Rightarrow> ''Parallel Step'' | Some n \<Rightarrow> n)
                  (case stype of None \<Rightarrow> TASK | Some t \<Rightarrow> t) sconfig eng) of
        (x, eng1) \<Rightarrow>
          (case execute_parallel_steps reg gen now step_id rest eng1 of
             (xs, eng2) \<Rightarrow> (x # xs, eng2)))"

text \<open>\<^verbatim>\<open>_execute_step\<close> on a step object: the exception it raises, if any, and the step
  as it leaves it.\<close>

definition execute_step ::
  "tool_registry \<Rightarrow> (string \<Rightarrow> int \<Rightarrow> string) \<Rightarrow> int \<Rightarrow> WorkflowStep \<Rightarrow> WorkflowEngine \<Rightarrow>
   exc option \<times> WorkflowStep \<times> WorkflowEngine" where
  "execute_step reg gen now step eng =
     (case execute_step_fields reg gen now (s_id step) (s_name step) (s_step_type step)
             (s_step_config step) eng of
        (StepDone v, eng1) \<Rightarrow>
          (None, step\<lparr>s_status := COMPLETED, s_result := Some v\<rparr>, eng1)
      | (StepFailed e, eng1) \<Rightarrow>
          (Some e, step\<lparr>s_status := FAILED, s_error := Some (str_of e)\<rparr>, eng1)
      | (StepAborted e, eng1) \<Rightarrow> (Some e, step\<lparr>s_status := IN_PROGRESS\<rparr>, eng1))"

text \<open>
  The \<^verbatim>\<open>for step in workflow.steps\<close> loop of \<^verbatim>\<open>_execute_workflow_task\<close>, with
  \<open>steps_executed\<close> its counter, which is also the position of \<open>step\<close> in the list. A
  step object is changed in place, so the step as \<^verbatim>\<open>_execute_step\<close> leaves it is
  written back at its position, also when it raises. The division is by the length of a
  list that holds \<open>step\<close>, which is not zero.
\<close>

fun run_steps ::
  "tool_registry \<Rightarrow> (string \<Rightarrow> int \<Rightarrow> string) \<Rightarrow> int \<Rightarrow> WorkflowStep list \<Rightarrow> nat \<Rightarrow> Workflow \<Rightarrow>
   WorkflowEngine \<Rightarrow> exc option \<times> Workflow \<times> WorkflowEngine" where
  "run_steps reg gen now [] steps_executed workflow eng = (None, workflow, eng)"
| "run_steps reg gen now (step # rest) steps_executed workflow eng =
     (case check_dependencies workflow (s_depends_on step) eng of
        (Some e, eng1) \<Rightarrow> (Some e, workflow, eng1)
      | (None, eng1) \<Rightarrow>
          (case execute_step reg gen now step eng1 of
             (Some e, step', eng2) \<Rightarrow>
               (Some e,
                workflow\<lparr>w_steps := (w_steps workflow)[steps_executed := step']\<rparr>, eng2)
           | (None, step', eng2) \<Rightarrow>
               run_steps reg gen now rest (steps_executed + 1)
                 (workflow\<lparr>w_steps := (w_steps workflow)[steps_executed := step'],
                            w_progress := real (steps_executed + 1)
                                            / real (length (w_steps workflow)) * 100\<rparr>)
                 eng2))"

text \<open>
  \<^verbatim>\<open>_execute_workflow_task\<close>: the \<^verbatim>\<open>try\<close> body with its three exits and the
  \<^verbatim>\<open>finally\<close> clause. The handler of \<^verbatim>\<open>except Exception\<close> starts by evaluating
  \<^verbatim>\<open>WorkflowStatus.FALED\<close>; the enumeration has no such member, so the attribute
  lookup raises \<^verbatim>\<open>AttributeError\<close> before anything is assigned, and that exception
  leaves the function after \<^verbatim>\<open>finally\<close>. The \<^verbatim>\<open>del\<close> of \<^verbatim>\<open>finally\<close>
  raises \<^verbatim>\<open>KeyError\<close> when the id is not registered.
\<close>

definition execute_workflow_task ::
  "tool_registry \<Rightarrow> (string \<Rightarrow> int \<Rightarrow> string) \<Rightarrow> int \<Rightarrow> Workflow \<Rightarrow> WorkflowEngine \<Rightarrow>
   exc option \<times> Workflow \<times> WorkflowEngine" where
  "execute_workflow_task reg gen now workflow eng =
     (case run_steps reg gen now (w_steps workflow) 0 workflow eng of
        (r, w1, eng1) \<Rightarrow>
          (let (raised, w2) =
                 (case r of
                    None \<Rightarrow> (None, w1\<lparr>w_status := WS_COMPLETED, w_completed_at := Some now\<rparr>)
                  | Some e \<Rightarrow>
                      (if e = CancelledError then (None, w1\<lparr>w_status := WS_CANCELLED\<rparr>)
                       else if is_Exception e then (Some (AttributeError ''FALED''), w1)
                       else (Some e, w1)))
           in (case map_of (running_workflows eng1) (w_id w2) of
                 None \<Rightarrow> (Some (KeyError (w_id w2)), w2, eng1)
               | Some h \<Rightarrow>
                   (raised, w2,
                    eng1\<lparr>running_workflows :=
                           AList.delete (w_id w2) (running_workflows eng1)\<rparr>))))"

text \<open>
  \<^verbatim>\<open>execute_workflow\<close>. The unit is created, registered and awaited at once; an
  exception that leaves the unit is raised again by \<^verbatim>\<open>await\<close>. The workflow object is
  the one of the dictionary, which therefore holds it as the unit leaves it.
\<close>

definition execute_workflow ::
  "tool_registry option \<Rightarrow> (string \<Rightarrow> int \<Rightarrow> string) \<Rightarrow> int \<Rightarrow> WorkflowEngine \<Rightarrow> string \<Rightarrow>
   (exc + Workflow) \<times> WorkflowEngine" where
  "execute_workflow tool_registry gen now eng workflow_id =
     (case map_of (workflows eng) workflow_id of
        None \<Rightarrow> (Inl (ValueError (''Workflow not found: '' @ workflow_id)), eng)
      | Some workflow \<Rightarrow>
          (let w1 = workflow\<lparr>w_status := WS_RUNNING, w_started_at := Some now\<rparr>;
               eng1 = eng\<lparr>running_workflows :=
                            AList.update workflow_id (wf_spawned eng) (running_workflows eng),
                          wf_spawned := wf_spawned eng + 1\<rparr>
           in (case execute_workflow_task (or_empty tool_registry) gen now w1 eng1 of
                 (raised, w2, eng2) \<Rightarrow>
                   (let eng3 = eng2\<lparr>workflows := AList.update workflow_id w2 (workflows eng2)\<rparr>
                    in (case raised of
                          Some e \<Rightarrow> (Inl e, eng3)
                        | None \<Rightarrow> (Inr w2, eng3))))))"

definition set_workflow_status :: "string \<Rightarrow> WorkflowStatus \<Rightarrow> WorkflowEngine \<Rightarrow> WorkflowEngine" where
  "set_workflow_status workflow_id status eng =
     (case map_of (workflows eng) workflow_id of
        None \<Rightarrow> eng
      | Some workflow \<Rightarrow>
          eng\<lparr>workflows :=
                AList.update workflow_id (workflow\<lparr>w_status := status\<rparr>) (workflows eng)\<rparr>)"

definition pause_workflow :: "WorkflowEngine \<Rightarrow> string \<Rightarrow> bool \<times> WorkflowEngine" where
  "pause_workflow eng workflow_id =
     (case map_of (running_workflows eng) workflow_id of
        None \<Rightarrow> (False, eng)
      | Some h \<Rightarrow>
          (True, set_workflow_status workflow_id WS_PAUSED
                   (eng\<lparr>wf_cancel_requested := wf_cancel_requested eng @ [h]\<rparr>)))"

definition cancel_workflow :: "WorkflowEngine \<Rightarrow> string \<Rightarrow> bool \<times> WorkflowEngine" where
  "cancel_workflow eng workflow_id =
     (case map_of (running_workflows eng) workflow_id of
        None \<Rightarrow> (False, eng)
      | Some h \<Rightarrow>
          (True, set_workflow_status workflow_id WS_CANCELLED
                   (eng\<lparr>wf_cancel_requested := wf_cancel_requested eng @ [h]\<rparr>)))"

definition list_workflows :: "WorkflowEngine \<Rightarrow> WorkflowStatus option \<Rightarrow> Workflow list" where
  "list_workflows eng status =
     (case status of
        None \<Rightarrow> map snd (workflows eng)
      | Some s \<Rightarrow> filter (\<lambda>w. w_status w = s) (map snd (workflows eng)))"

definition delete_workflow :: "WorkflowEngine \<Rightarrow> string \<Rightarrow> bool \<times> WorkflowEngine" where
  "delete_workflow eng workflow_id =
     (case map_of (workflows eng) workflow_id of
        None \<Rightarrow> (False, eng)
      | Some workflow \<Rightarrow>
          (True, eng\<lparr>workflows := AList.delete workflow_id (workflows eng)\<rparr>))"

section \<open>Progress Tracker (\<^verbatim>\<open>tt/progress_tracker.py\<close>)\<close>

datatype ProgressState = NOT_STARTED | PS_IN_PROGRESS | PS_COMPLETED | PS_FAILED | PAUSED

record ProgressUpdate =
  u_id :: string
  u_entity_type :: string
  u_entity_id :: string
  u_progress :: real
  u_state :: ProgressState
  u_message :: "string option"
  u_data :: "(string \<times> pyval) list"
  u_timestamp :: int

record ProgressMeter =
  m_id :: string
  m_name :: string
  m_total_steps :: int
  m_current_step :: int
  m_progress :: real
  m_state :: ProgressState
  m_started_at :: "int option"
  m_estimated_completion :: "real option"
  m_updates :: "ProgressUpdate list"
  m_metadata :: "(string \<times> pyval) list"

text \<open>A registered callback is given by how it resolves when awaited on an update.\<close>

record ProgressTracker =
  meters :: "(string \<times> ProgressMeter) list"
  callbacks :: "(ProgressUpdate \<Rightarrow> call_outcome) list"

definition init_ProgressTracker :: ProgressTracker where
  "init_ProgressTracker = \<lparr>meters = [], callbacks = []\<rparr>"

definition create_meter ::
  "(string \<Rightarrow> int \<Rightarrow> string) \<Rightarrow> int \<Rightarrow> ProgressTracker \<Rightarrow> string \<Rightarrow> int \<Rightarrow>
   (string \<times> pyval) list option \<Rightarrow> ProgressMeter \<times> ProgressTracker" where
  "create_meter gen now pt name total_steps metadata =
     (let meter_id = gen name now;
          meter = \<lparr>m_id = meter_id, m_name = name, m_total_steps = total_steps,
                   m_current_step = 0, m_progress = 0, m_state = NOT_STARTED,
                   m_started_at = None, m_estimated_completion = None, m_updates = [],
                   m_metadata = or_empty metadata\<rparr>
      in (meter, pt\<lparr>meters := AList.update meter_id meter (meters pt)\<rparr>))"

text \<open>Python's \<^verbatim>\<open>int(x)\<close> on a float truncates towards zero.\<close>

definition py_int :: "real \<Rightarrow> int" where
  "py_int x = (if 0 \<le> x then \<lfloor>x\<rfloor> else \<lceil>x\<rceil>)"

text \<open>The three channels of \<^verbatim>\<open>update_progress\<close>, in the order of the source.\<close>

definition apply_state :: "int \<Rightarrow> ProgressState option \<Rightarrow> ProgressMeter \<Rightarrow> ProgressMeter" where
  "apply_state now state meter =
     (case state of
        None \<Rightarrow> meter
      | Some st \<Rightarrow>
          (let m1 = meter\<lparr>m_state := st\<rparr> in
           if st = PS_IN_PROGRESS \<and> m_started_at m1 = None then m1\<lparr>m_started_at := Some now\<rparr>
           else if st = PS_COMPLETED
           then m1\<lparr>m_current_step := m_total_steps m1, m_progress := 100\<rparr>
           else m1))"

definition apply_current_step :: "int option \<Rightarrow> ProgressMeter \<Rightarrow> exc + ProgressMeter" where
  "apply_current_step current_step meter =
     (case current_step of
        None \<Rightarrow> Inr meter
      | Some c \<Rightarrow>
          (if m_total_steps meter = 0 then Inl (ZeroDivisionError ''division by zero'')
           else Inr (meter\<lparr>m_current_step := c,
                           m_progress := real_of_int c / real_of_int (m_total_steps meter) * 100\<rparr>)))"

definition apply_progress :: "real option \<Rightarrow> ProgressMeter \<Rightarrow> ProgressMeter" where
  "apply_progress progress meter =
     (case progress of
        None \<Rightarrow> meter
      | Some p \<Rightarrow>
          (let m1 = meter\<lparr>m_progress := max 0 (min 100 p)\<rparr>
           in m1\<lparr>m_current_step := py_int (m_progress m1 / 100 * real_of_int (m_total_steps m1))\<rparr>))"

text \<open>The callback loop: an \<^verbatim>\<open>Exception\<close> of a callback is logged and dropped, a
  cancellation is not an \<^verbatim>\<open>Exception\<close> and leaves the loop.\<close>

fun notify :: "(ProgressUpdate \<Rightarrow> call_outcome) list \<Rightarrow> ProgressUpdate \<Rightarrow> exc option" where
  "notify [] update = None"
| "notify (callback # rest) update =
     (case callback update of
        Cancelled \<Rightarrow> Some CancelledError
      | Returns v \<Rightarrow> notify rest update
      | Raises m \<Rightarrow> notify rest update)"

definition estimate :: "int \<Rightarrow> ProgressMeter \<Rightarrow> ProgressMeter" where
  "estimate now meter =
     (case m_started_at meter of
        None \<Rightarrow> meter
      | Some started \<Rightarrow>
          (if m_state meter = PS_IN_PROGRESS \<and> m_progress meter > 0
           then meter\<lparr>m_estimated_completion :=
                        Some (real_of_int now
                              + real_of_int (now - started) / m_progress meter
                                * (100 - m_progress meter))\<rparr>
           else meter))"

text \<open>
  \<^verbatim>\<open>update_progress\<close>. The meter object is changed in place, so what was assigned
  before an exception stays: the dictionary holds the meter as the raising statement
  found it, with \<^verbatim>\<open>current_step\<close> already assigned when the division raises.
\<close>

definition update_progress ::
  "(string \<Rightarrow> int \<Rightarrow> string) \<Rightarrow> int \<Rightarrow> ProgressTracker \<Rightarrow> string \<Rightarrow> int option \<Rightarrow> real option \<Rightarrow>
   ProgressState option \<Rightarrow> string option \<Rightarrow> (string \<times> pyval) list option \<Rightarrow>
   (exc + ProgressMeter option) \<times> ProgressTracker" where
  "update_progress gen now pt meter_id current_step progress state message data =
     (case map_of (meters pt) meter_id of
        None \<Rightarrow> (Inr None, pt)
      | Some meter \<Rightarrow>
          (let m1 = apply_state now state meter in
           case apply_current_step current_step m1 of
             Inl e \<Rightarrow>
               (Inl e,
                pt\<lparr>meters := AList.update meter_id
                     (case current_step of None \<Rightarrow> m1 | Some c \<Rightarrow> m1\<lparr>m_current_step := c\<rparr>)
                     (meters pt)\<rparr>)
           | Inr m2 \<Rightarrow>
               (let m3 = apply_progress progress m2 in
                case message of
                  None \<Rightarrow>
                    (let m5 = estimate now m3
                     in (Inr (Some m5), pt\<lparr>meters := AList.update meter_id m5 (meters pt)\<rparr>))
                | Some msg \<Rightarrow>
                    (let update = \<lparr>u_id = gen meter_id now, u_entity_type = ''meter'',
                                    u_entity_id = meter_id, u_progress = m_progress m3,
                                    u_state = m_state m3, u_message = Some msg,
                                    u_data = or_empty data, u_timestamp = now\<rparr>;
                         m4 = m3\<lparr>m_updates := m_updates m3 @ [update]\<rparr>
                     in (case notify (callbacks pt) update of
                           Some e \<Rightarrow>
                             (Inl e, pt\<lparr>meters := AList.update meter_id m4 (meters pt)\<rparr>)
                         | None \<Rightarrow>
                             (let m5 = estimate now m4
                              in (Inr (Some m5),
                                  pt\<lparr>meters := AList.update meter_id m5 (meters pt)\<rparr>)))))))"

definition get_meter :: "ProgressTracker \<Rightarrow> string \<Rightarrow> ProgressMeter option" where
  "get_meter pt meter_id = map_of (meters pt) meter_id"

definition list_meters :: "ProgressTracker \<Rightarrow> ProgressState option \<Rightarrow> ProgressMeter list" where
  "list_meters pt state =
     (case state of
        None \<Rightarrow> map snd (meters pt)
      | Some s \<Rightarrow> filter (\<lambda>m. m_state m = s) (map snd (meters pt)))"

definition delete_meter :: "ProgressTracker \<Rightarrow> string \<Rightarrow> bool \<times> ProgressTracker" where
  "delete_meter pt meter_id =
     (case map_of (meters pt) meter_id of
        None \<Rightarrow> (False, pt)
      | Some meter \<Rightarrow> (True, pt\<lparr>meters := AList.delete meter_id (meters pt)\<rparr>))"

text \<open>\<^verbatim>\<open>get_meter_summary\<close>. \<open>round2\<close> stands for \<^verbatim>\<open>round(x, 2)\<close>; a
  \<^verbatim>\<open>timedelta\<close> of zero is falsy, so no elapsed time is reported for it.\<close>

record MeterSummary =
  sm_id :: string
  sm_name :: string
  sm_progress :: real
  sm_state :: ProgressState
  sm_current_step :: int
  sm_total_steps :: int
  sm_started_at :: "int option"
  sm_estimated_completion :: "real option"
  sm_time_elapsed :: "int option"
  sm_is_complete :: bool
  sm_updates_count :: nat
  sm_metadata :: "(string \<times> pyval) list"

definition is_complete :: "ProgressMeter \<Rightarrow> bool" where
  "is_complete meter =
     (m_state meter = PS_COMPLETED \<or> m_current_step meter \<ge> m_total_steps meter)"

definition time_elapsed :: "int \<Rightarrow> ProgressMeter \<Rightarrow> int option" where
  "time_elapsed now meter =
     (case m_started_at meter of None \<Rightarrow> None | Some started \<Rightarrow> Some (now - started))"

definition get_meter_summary ::
  "(real \<Rightarrow> real) \<Rightarrow> int \<Rightarrow> ProgressTracker \<Rightarrow> string \<Rightarrow> MeterSummary option" where
  "get_meter_summary round2 now pt meter_id =
     (case map_of (meters pt) meter_id of
        None \<Rightarrow> None
      | Some meter \<Rightarrow>
          Some \<lparr>sm_id = m_id meter, sm_name = m_name meter,
                sm_progress = round2 (m_progress meter), sm_state = m_state meter,
                sm_current_step = m_current_step meter, sm_total_steps = m_total_steps meter,
                sm_started_at = m_started_at meter,
                sm_estimated_completion = m_estimated_completion meter,
                sm_time_elapsed = (if time_elapsed now meter = Some 0 then None
                                   else time_elapsed now meter),
                sm_is_complete = is_complete meter,
                sm_updates_count = length (m_updates meter),
                sm_metadata = m_metadata meter\<rparr>)"

section \<open>The specification's reading of the filters, and example states\<close>

text \<open>
  The filters of \<^verbatim>\<open>list\<close> as the specification words them: a supplied filter
  (\<open>Some\<close>) must be matched, the tag filter by any overlap.
\<close>

definition spec_matches ::
  "TaskStatus option \<Rightarrow> TaskPriority option \<Rightarrow> string option \<Rightarrow> string option \<Rightarrow>
   string list option \<Rightarrow> Task \<Rightarrow> bool" where
  "spec_matches status priority assigned_to workflow_id tags t =
     ((case status of None \<Rightarrow> True | Some s \<Rightarrow> t_status t = s)
      \<and> (case priority of None \<Rightarrow> True | Some p \<Rightarrow> t_priority t = p)
      \<and> (case assigned_to of None \<Rightarrow> True | Some a \<Rightarrow> t_assigned_to t = Some a)
      \<and> (case workflow_id of None \<Rightarrow> True | Some w \<Rightarrow> t_workflow_id t = Some w)
      \<and> (case tags of None \<Rightarrow> True | Some ts \<Rightarrow> list_ex (\<lambda>tag. tag \<in> set (t_tags t)) ts))"

text \<open>An argument that is the empty string or the empty list counts as not supplied.\<close>

definition truthy_arg :: "'a list option \<Rightarrow> 'a list option" where
  "truthy_arg f = (case f of None \<Rightarrow> None | Some x \<Rightarrow> (if x = [] then None else Some x))"

text \<open>The order of the specification: Urgent, High, Medium, Low, then the earlier
  creation time first.\<close>

definition by_priority_then_created :: "Task \<Rightarrow> Task \<Rightarrow> bool" where
  "by_priority_then_created x y =
     (priority_order (t_priority x) < priority_order (t_priority y)
      \<or> (priority_order (t_priority x) = priority_order (t_priority y)
          \<and> t_created_at x \<le> t_created_at y))"

text \<open>An id generator for the examples (the name is the id), the scenario of the
  specification (task \<open>a\<close>, and task \<open>b\<close> that depends on it), and a manager in which
  task \<open>a\<close> has been launched.\<close>

definition demo_gen :: "string \<Rightarrow> int \<Rightarrow> string" where
  "demo_gen name now = name"

definition demo_tm :: TaskManager where
  "demo_tm = run_ops demo_gen
     [OpCreate 1 ''a'' ''first'' HIGH None (Some [''x'']) None None None,
      OpCreate 2 ''b'' ''second'' URGENT None None None (Some [''a'']) None]"

definition demo_running :: TaskManager where
  "demo_running = run_ops demo_gen
     [OpCreate 1 ''a'' ''first'' HIGH None (Some [''x'']) None None None,
      OpExecute 2 ''a'' (Returns (PInt 0))]"

text \<open>Task \<open>a\<close> completed; completed and then set back to Pending; and task \<open>b\<close> after
  an \<^verbatim>\<open>execute\<close> that was declined.\<close>

definition demo_done :: TaskManager where
  "demo_done = run_ops demo_gen
     [OpCreate 1 ''a'' ''first'' HIGH None (Some [''x'']) None None None,
      OpUpdate 3 ''a'' COMPLETED None None None]"

definition demo_done_then_pending :: TaskManager where
  "demo_done_then_pending = run_ops demo_gen
     [OpCreate 1 ''a'' ''first'' HIGH None (Some [''x'']) None None None,
      OpUpdate 3 ''a'' COMPLETED None None None,
      OpUpdate 4 ''a'' PENDING None None None]"

definition demo_declined :: TaskManager where
  "demo_declined = run_ops demo_gen
     [OpCreate 1 ''a'' ''first'' HIGH None (Some [''x'']) None None None,
      OpCreate 2 ''b'' ''second'' URGENT None None None (Some [''a'']) None,
      OpExecute 3 ''b'' (Returns PNone)]"

text \<open>The invariant of the task table that the code keeps: a Completed task carries its
  completion time.\<close>

definition stamped :: "TaskManager \<Rightarrow> bool" where
  "stamped tm = (\<forall>k t. map_of (tasks tm) k = Some t \<and> t_status t = COMPLETED
                        \<longrightarrow> t_completed_at t \<noteq> None)"

text \<open>A workflow whose only step calls a tool that is not registered, a workflow
  without steps, and a tracker with one meter of three steps.\<close>

definition demo_step_missing_tool :: WorkflowStep where
  "demo_step_missing_tool =
     \<lparr>s_id = ''s1'', s_name = ''call'', s_step_type = TOOL_CALL,
      s_step_config = StepConfig [] None (Some ''missing'') [] None None [] [],
      s_depends_on = [], s_status = PENDING, s_result = None, s_error = None\<rparr>"

definition demo_engine_failing :: WorkflowEngine where
  "demo_engine_failing =
     snd (create_workflow demo_gen 1 init_WorkflowEngine ''wf'' ''one failing step''
            [demo_step_missing_tool] None)"

definition demo_engine_empty :: WorkflowEngine where
  "demo_engine_empty =
     snd (create_workflow demo_gen 1 init_WorkflowEngine ''wf'' ''no steps'' [] None)"

definition demo_tracker :: ProgressTracker where
  "demo_tracker = snd (create_meter demo_gen 1 init_ProgressTracker ''m'' 3 None)"

section \<open>Auxiliary facts\<close>

lemmas tm_simps = run_ops_def demo_gen_def create_task_def
  init_TaskManager_def or_empty_def Let_def execute_task_def update_task_status_def
  pending_deps_def dep_unmet_def stop_running_def execute_wrapper_def








lemma tasks_stop_running: "tasks (stop_running k tm) = tasks tm"
  by (simp add: stop_running_def split: option.splits)

lemma stamped_update:
  assumes "stamped tm"
  shows "stamped (snd (update_task_status now tm task_id status progress result error))"
proof (cases "map_of (tasks tm) task_id")
  case None
  with assms show ?thesis by (simp add: update_task_status_def)
next
  case (Some task)
  show ?thesis
    unfolding stamped_def
  proof (intro allI impI)
    fix k t
    assume a: "map_of (tasks (snd (update_task_status now tm task_id status progress result error))) k
                 = Some t \<and> t_status t = COMPLETED"
    show "t_completed_at t \<noteq> None"
    proof (cases "k = task_id")
      case True
      with a Some show ?thesis
        by (auto simp: update_task_status_def Let_def tasks_stop_running update_conv'
            split: option.splits if_splits)
    next
      case False
      with a Some have "map_of (tasks tm) k = Some t"
        by (auto simp: update_task_status_def Let_def tasks_stop_running update_conv'
            split: if_splits)
      with a assms show ?thesis by (auto simp: stamped_def)
    qed
  qed
qed

lemma stamped_create:
  assumes "stamped tm"
    and "create_task gen now tm name description priority assigned_to tags metadata deps wfid
         = Inr (task, tm')"
  shows "stamped tm'"
  using assms
  by (auto simp: stamped_def create_task_def Let_def update_conv' split: if_splits)

lemma stamped_delete:
  assumes "stamped tm"
  shows "stamped (snd (delete_task tm task_id))"
  using assms
  by (auto simp: stamped_def delete_task_def tasks_stop_running delete_conv'
      split: option.splits if_splits)

lemma stamped_execute:
  assumes "stamped tm"
  shows "stamped (snd (execute_task now tm task_id f))"
proof (cases "map_of (tasks tm) task_id")
  case None
  with assms show ?thesis by (simp add: execute_task_def)
next
  case (Some task)
  have a: "stamped (snd (update_task_status now tm task_id PENDING None None (Some m)))" for m
    using assms by (rule stamped_update)
  have b: "stamped (snd (update_task_status now tm task_id IN_PROGRESS (Some 0) None None))"
    using assms by (rule stamped_update)
  show ?thesis
    using Some a b
    by (auto simp: execute_task_def Let_def stamped_def split: prod.splits)
qed

lemma stamped_wrapper:
  assumes "stamped tm"
  shows "stamped (execute_wrapper now tm task_id outcome)"
  using assms by (cases outcome) (simp_all add: execute_wrapper_def stamped_update)

lemma stamped_apply_op:
  assumes "stamped tm"
  shows "stamped (apply_op gen tm op)"
proof (cases op)
  case (OpCreate now name description priority assigned_to tags metadata deps wfid)
  then show ?thesis
    using assms stamped_create [OF assms]
    by (auto split: sum.splits)
next
  case (OpUpdate now task_id status progress result error)
  then show ?thesis using assms by (simp add: stamped_update)
next
  case (OpDelete task_id)
  then show ?thesis using assms by (simp add: stamped_delete)
next
  case (OpExecute now task_id f)
  then show ?thesis using assms by (simp add: stamped_execute)
next
  case (OpWrapper now task_id outcome)
  then show ?thesis using assms by (simp add: stamped_wrapper)
qed

lemma stamped_run_ops: "stamped (run_ops gen ops)"
proof (induction ops rule: rev_induct)
  case Nil
  show ?case by (simp add: run_ops_def stamped_def init_TaskManager_def)
next
  case (snoc op ops)
  then show ?case by (simp add: run_ops_def stamped_apply_op)
qed

lemma applies_eq_spec:
  "(status_applies st t \<and> priority_applies pr t \<and> assigned_applies a t
     \<and> workflow_applies w t \<and> tags_apply tg t)
   = spec_matches st pr (truthy_arg a) (truthy_arg w) (truthy_arg tg) t"
  by (auto simp: status_applies_def priority_applies_def assigned_applies_def
      workflow_applies_def tags_apply_def spec_matches_def truthy_arg_def
      split: option.splits)

lemma list_tasks_eq:
  "list_tasks tm st pr a w tg
   = sort_key sort_key_of
       (filter (spec_matches st pr (truthy_arg a) (truthy_arg w) (truthy_arg tg))
          (map snd (tasks tm)))"
proof -
  have "filter (tags_apply tg) (filter (workflow_applies w) (filter (assigned_applies a)
          (filter (priority_applies pr) (filter (status_applies st) xs))))
        = filter (spec_matches st pr (truthy_arg a) (truthy_arg w) (truthy_arg tg)) xs" for xs
    by (induction xs) (auto simp: applies_eq_spec [symmetric])
  then show ?thesis by (simp add: list_tasks_def Let_def)
qed

lemma key_le_iff: "sort_key_of x \<le> sort_key_of y \<longleftrightarrow> by_priority_then_created x y"
  by (auto simp: sort_key_of_def by_priority_then_created_def)

text \<open>No step changes the table of running workflow units, the status of the workflow
  or its id; so \<^verbatim>\<open>execute_workflow\<close> on a workflow stored under its id either raises
  the \<^verbatim>\<open>AttributeError\<close> of the handler, the workflow still Running, or returns it
  Completed or Cancelled: no run marks a workflow Failed.\<close>

lemma sleep_running: "running_workflows (snd (sleep eng)) = running_workflows eng"
  by (simp add: sleep_def split: option.splits nat.splits)

lemma step_fields_running:
  "running_workflows (snd (execute_step_fields reg gen now sid name ty cfg eng))
     = running_workflows eng"
  "running_workflows (snd (execute_parallel_steps reg gen now sid subs eng))
     = running_workflows eng"
proof (induction reg gen now sid name ty cfg eng and reg gen now sid subs eng
    rule: execute_step_fields_execute_parallel_steps.induct)
  case (1 reg gen now step_id name description execution_func tool_name tool_args seconds condition "context" steps eng)
  then show ?case
    by (simp add: create_task_def Let_def split: option.splits prod.splits)
next
  case (2 reg gen now step_id name description execution_func tool_name tool_args seconds condition "context" steps eng)
  then show ?case by (simp split: option.splits)
next
  case (3 reg gen now step_id name description execution_func tool_name tool_args seconds condition "context" steps eng)
  then show ?case
    using sleep_running [of eng] by (auto simp: Let_def split: option.splits prod.splits)
next
  case (4 reg gen now step_id name description execution_func tool_name tool_args seconds condition "context" steps eng)
  then show ?case by (simp split: option.splits)
next
  case (5 reg gen now step_id name description execution_func tool_name tool_args seconds condition "context" steps eng)
  then show ?case by (auto split: option.splits prod.splits)
next
  case (6 reg gen now step_id eng)
  then show ?case by simp
next
  case (7 reg gen now step_id sid sname stype sconfig rest eng)
  then show ?case
    by (auto split: option.splits prod.splits)
qed

lemma execute_step_running:
  "execute_step reg gen now step eng = (r, step', eng') \<Longrightarrow>
   running_workflows eng' = running_workflows eng"
  using step_fields_running(1) [of reg gen now "s_id step" "s_name step" "s_step_type step"
      "s_step_config step" eng]
  by (auto simp: execute_step_def split: prod.splits step_exit.splits)

lemma check_dependencies_running:
  "running_workflows (snd (check_dependencies w deps eng)) = running_workflows eng"
proof (induction deps arbitrary: eng)
  case Nil
  then show ?case by simp
next
  case (Cons d deps)
  show ?case
    using Cons [of eng] Cons [of "snd (sleep eng)"] sleep_running [of eng]
    by (auto split: option.splits prod.splits)
qed

lemma run_steps_keeps:
  "run_steps reg gen now steps k w eng = (r, w', eng') \<Longrightarrow>
   running_workflows eng' = running_workflows eng \<and> w_status w' = w_status w \<and> w_id w' = w_id w"
proof (induction steps arbitrary: k w eng)
  case Nil
  then show ?case by simp
next
  case (Cons step rest)
  obtain r1 eng1 where cd: "check_dependencies w (s_depends_on step) eng = (r1, eng1)"
    by (cases "check_dependencies w (s_depends_on step) eng")
  then have e1: "running_workflows eng1 = running_workflows eng"
    using check_dependencies_running [of w "s_depends_on step" eng] by simp
  show ?case
  proof (cases r1)
    case (Some e)
    with Cons.prems cd e1 show ?thesis by simp
  next
    case None
    obtain r2 step' eng2 where es: "execute_step reg gen now step eng1 = (r2, step', eng2)"
      by (cases "execute_step reg gen now step eng1")
    then have e2: "running_workflows eng2 = running_workflows eng1"
      by (rule execute_step_running)
    show ?thesis
    proof (cases r2)
      case (Some e)
      with Cons.prems cd None es e1 e2 show ?thesis by auto
    next
      case n2: None
      with Cons.prems cd None es
      have "run_steps reg gen now rest (k + 1)
              (w\<lparr>w_steps := (w_steps w)[k := step'],
                 w_progress := real (k + 1) / real (length (w_steps w)) * 100\<rparr>) eng2
            = (r, w', eng')" by simp
      from Cons.IH [OF this] e1 e2 show ?thesis by simp
    qed
  qed
qed

lemma is_Exception_iff: "is_Exception e \<longleftrightarrow> e \<noteq> CancelledError"
  by (cases e) simp_all

lemma execute_workflow_outcomes:
  assumes "map_of (workflows eng) workflow_id = Some w" and "w_id w = workflow_id"
  shows "(case fst (execute_workflow tool_registry gen now eng workflow_id) of
            Inl e \<Rightarrow> e = AttributeError ''FALED''
                     \<and> map_option w_status
                          (map_of (workflows (snd (execute_workflow tool_registry gen now eng
                              workflow_id))) workflow_id) = Some WS_RUNNING
          | Inr w' \<Rightarrow> w_status w' = WS_COMPLETED \<or> w_status w' = WS_CANCELLED)"
proof -
  let ?w1 = "w\<lparr>w_status := WS_RUNNING, w_started_at := Some now\<rparr>"
  let ?eng1 = "eng\<lparr>running_workflows :=
                      AList.update workflow_id (wf_spawned eng) (running_workflows eng),
                    wf_spawned := wf_spawned eng + 1\<rparr>"
  obtain r w2 eng2 where rs:
    "run_steps (or_empty tool_registry) gen now (w_steps ?w1) 0 ?w1 ?eng1 = (r, w2, eng2)"
    by (cases "run_steps (or_empty tool_registry) gen now (w_steps ?w1) 0 ?w1 ?eng1")
  from run_steps_keeps [OF rs] assms
  have k: "map_of (running_workflows eng2) workflow_id = Some (wf_spawned eng)"
    "w_status w2 = WS_RUNNING" "w_id w2 = workflow_id"
    by (simp_all add: update_conv')
  show ?thesis
    using assms rs k
    by (cases r)
      (auto simp: execute_workflow_def execute_workflow_task_def Let_def update_conv'
        is_Exception_iff)
qed

text \<open>The progress channel of \<^verbatim>\<open>update_progress\<close> keeps both ranges on a meter whose
  total is not negative.\<close>

lemma floor_part_bounds:
  fixes q :: real and n :: int
  assumes "0 \<le> q" and "q \<le> 100" and "0 \<le> n"
  shows "0 \<le> py_int (q / 100 * real_of_int n) \<and> py_int (q / 100 * real_of_int n) \<le> n"
proof -
  have a: "0 \<le> q / 100 * real_of_int n" using assms by simp
  have "q / 100 * real_of_int n \<le> 1 * real_of_int n"
    using assms by (intro mult_right_mono) simp_all
  then have b: "q / 100 * real_of_int n \<le> real_of_int n" by simp
  from a b show ?thesis by (simp add: py_int_def floor_le_iff le_floor_iff) 
qed

lemma progress_channel_in_range:
  assumes "0 \<le> m_total_steps meter"
  shows "0 \<le> m_progress (apply_progress (Some p) meter)
       \<and> m_progress (apply_progress (Some p) meter) \<le> 100
       \<and> 0 \<le> m_current_step (apply_progress (Some p) meter)
       \<and> m_current_step (apply_progress (Some p) meter) \<le> m_total_steps meter"
  using floor_part_bounds [of "max 0 (min 100 p)" "m_total_steps meter"] assms
  by (simp add: apply_progress_def Let_def)

section \<open>Claims on the Task Manager\<close>

subsection \<open>C3: creating a task\<close>



subsection \<open>C5: execute with unmet dependencies\<close>



subsection \<open>C7: updating a status to Completed\<close>

text \<open>
  C7: for an existing task, \<^verbatim>\<open>update_task_status\<close> with status Completed returns the
  task with progress 100 and \<^verbatim>\<open>completed_at\<close> set to the time of the call, whatever
  progress was passed; and a unit registered under the task id is cancelled and is no
  longer registered afterwards.
\<close>

theorem C7_completed_forces_progress_and_stops_unit:
  assumes "map_of (tasks tm) task_id = Some task"
  shows "\<exists>t'. fst (update_task_status now tm task_id COMPLETED progress result error) = Some t'
            \<and> map_of (tasks (snd (update_task_status now tm task_id COMPLETED progress result error)))
                  task_id = Some t'
            \<and> t_status t' = COMPLETED \<and> t_progress t' = 100 \<and> t_completed_at t' = Some now
            \<and> (\<forall>h. map_of (running_tasks tm) task_id = Some h \<longrightarrow>
                  h \<in> set (cancel_requested
                              (snd (update_task_status now tm task_id COMPLETED progress result error)))
                  \<and> map_of (running_tasks
                              (snd (update_task_status now tm task_id COMPLETED progress result error)))
                        task_id = None)"
  using assms
  by (auto simp: update_task_status_def stop_running_def Let_def update_conv' delete_conv'
      split: option.splits)

theorem C7_witness:
  "map_of (tasks demo_running) ''a'' = Some (the (map_of (tasks demo_running) ''a''))
   \<and> map_of (running_tasks demo_running) ''a'' = Some 0
   \<and> (\<exists>t'. map_of (tasks (snd (update_task_status 3 demo_running ''a'' COMPLETED (Some 40) None None)))
               ''a'' = Some t'
         \<and> t_progress t' = 100 \<and> t_completed_at t' = Some 3)
   \<and> 0 \<in> set (cancel_requested
                (snd (update_task_status 3 demo_running ''a'' COMPLETED (Some 40) None None)))
   \<and> map_of (running_tasks
                (snd (update_task_status 3 demo_running ''a'' COMPLETED (Some 40) None None)))
         ''a'' = None"
proof -
  have h1: "map_of (tasks demo_running) ''a'' = Some (the (map_of (tasks demo_running) ''a''))"
    by (simp add: demo_running_def tm_simps)
  have h2: "map_of (running_tasks demo_running) ''a'' = Some 0"
    by (simp add: demo_running_def tm_simps)
  from C7_completed_forces_progress_and_stops_unit [OF h1, of 3 "Some 40" None None] h2 h1
  show ?thesis by auto
qed

subsection \<open>C8: the result of a task whose function returns\<close>




subsection \<open>C4: completion time and error against the status\<close>

text \<open>
  C4, as the code has it: for every task of a manager reached by any sequence of
  operations (create, update of the status, delete, execute, and a launched wrapper
  reaching its end), if the status of the task is Completed then \<^verbatim>\<open>completed_at\<close>
  is set.
\<close>

theorem C4_completed_has_completion_time:
  assumes "map_of (tasks (run_ops gen ops)) task_id = Some t" and "t_status t = COMPLETED"
  shows "t_completed_at t \<noteq> None"
  using stamped_run_ops [of gen ops] assms by (auto simp: stamped_def)

theorem C4_witness:
  "map_of (tasks demo_done) ''a'' = Some (the (map_of (tasks demo_done) ''a''))
   \<and> t_status (the (map_of (tasks demo_done) ''a'')) = COMPLETED
   \<and> t_completed_at (the (map_of (tasks demo_done) ''a'')) \<noteq> None"
proof -
  have h1: "map_of (tasks demo_done) ''a'' = Some (the (map_of (tasks demo_done) ''a''))"
    by code_simp
  have h2: "t_status (the (map_of (tasks demo_done) ''a'')) = COMPLETED"
    by code_simp
  have "t_completed_at (the (map_of (tasks demo_done) ''a'')) \<noteq> None"
    using h1 h2 unfolding demo_done_def by (rule C4_completed_has_completion_time)
  with h1 h2 show ?thesis by blast
qed

text \<open>
  C4 as stated fails in both of its parts. A task that was Completed and is set back to
  Pending keeps its \<^verbatim>\<open>completed_at\<close>, since no update clears it; and a declined
  \<^verbatim>\<open>execute\<close> records its error message on a task it leaves Pending.
\<close>

theorem C4_counterexample_pending_with_completion_time_and_error:
  "map_of (tasks demo_done_then_pending) ''a'' \<noteq> None
   \<and> t_status (the (map_of (tasks demo_done_then_pending) ''a'')) = PENDING
   \<and> t_completed_at (the (map_of (tasks demo_done_then_pending) ''a'')) = Some 3
   \<and> map_of (tasks demo_declined) ''b'' \<noteq> None
   \<and> t_status (the (map_of (tasks demo_declined) ''b'')) = PENDING
   \<and> t_error (the (map_of (tasks demo_declined) ''b''))
       = Some ''Dependencies not completed: a''"
  by code_simp

subsection \<open>C6: listing tasks\<close>

text \<open>
  C6, as the code has it: \<^verbatim>\<open>list_tasks\<close> returns exactly the tasks of the table that
  match every filter that is supplied and not empty (an \<^verbatim>\<open>assigned_to\<close> or
  \<^verbatim>\<open>workflow_id\<close> that is the empty string and a tag list that is empty count as not
  supplied); the tag filter is matched by any common tag. The result has the matching
  tasks with their multiplicities, is ordered by priority (Urgent, High, Medium, Low)
  and then by creation time ascending, and keeps tasks of equal priority and creation
  time in the order of the table.
\<close>

theorem C6_list_tasks_filters_and_sorts:
  "list_tasks tm st pr a w tg
     = sort_key sort_key_of
         (filter (spec_matches st pr (truthy_arg a) (truthy_arg w) (truthy_arg tg))
            (map snd (tasks tm)))
   \<and> mset (list_tasks tm st pr a w tg)
     = mset (filter (spec_matches st pr (truthy_arg a) (truthy_arg w) (truthy_arg tg))
               (map snd (tasks tm)))
   \<and> sorted_wrt by_priority_then_created (list_tasks tm st pr a w tg)
   \<and> (\<forall>k. filter (\<lambda>t. sort_key_of t = k) (list_tasks tm st pr a w tg)
          = filter (\<lambda>t. sort_key_of t = k)
              (filter (spec_matches st pr (truthy_arg a) (truthy_arg w) (truthy_arg tg))
                 (map snd (tasks tm))))"
proof -
  let ?sel = "filter (spec_matches st pr (truthy_arg a) (truthy_arg w) (truthy_arg tg))
                (map snd (tasks tm))"
  have eq: "list_tasks tm st pr a w tg = sort_key sort_key_of ?sel" by (rule list_tasks_eq)
  have "sorted (map sort_key_of (sort_key sort_key_of ?sel))" by (rule sorted_sort_key)
  then have srt: "sorted_wrt by_priority_then_created (sort_key sort_key_of ?sel)"
    by (simp add: sorted_map key_le_iff)
  show ?thesis
    unfolding eq using srt by (simp add: sort_key_stable)
qed

theorem C6_witness:
  "map t_id (list_tasks demo_tm None (Some URGENT) (Some []) None (Some [])) = [''b'']
   \<and> sorted_wrt by_priority_then_created
        (list_tasks demo_tm None (Some URGENT) (Some []) None (Some []))"
proof -
  have "map t_id (list_tasks demo_tm None (Some URGENT) (Some []) None (Some [])) = [''b'']"
    by code_simp
  with C6_list_tasks_filters_and_sorts [of demo_tm None "Some URGENT" "Some []" None "Some []"]
  show ?thesis by blast
qed

text \<open>
  C6 as stated takes every supplied filter into account: with the empty tag list
  supplied no task has a tag in common with it, yet both tasks are listed.
\<close>

theorem C6_counterexample_empty_tag_filter:
  "map t_id (list_tasks demo_tm None None None None (Some [])) = [''b'', ''a'']
   \<and> filter (spec_matches None None None None (Some [])) (map snd (tasks demo_tm)) = []"
  by code_simp

section \<open>Claims on the Workflow Engine and the Progress Tracker\<close>

subsection \<open>C1: a step that fails\<close>

text \<open>
  C1 asks that a workflow whose steps raise an exception other than a cancellation ends
  Failed, and that \<^verbatim>\<open>execute\<close> does not raise an unrelated error. The code does
  neither: for the workflow whose only step calls an unregistered tool, the step ends
  Failed with the message of the \<^verbatim>\<open>ValueError\<close>, the handler of the workflow raises
  \<^verbatim>\<open>AttributeError\<close> on \<^verbatim>\<open>WorkflowStatus.FALED\<close>, the workflow stays Running
  and \<^verbatim>\<open>execute_workflow\<close> raises that \<^verbatim>\<open>AttributeError\<close>.
\<close>

theorem C1_failing_step_leaves_workflow_running:
  "fst (execute_workflow None demo_gen 2 demo_engine_failing ''wf'')
     = Inl (AttributeError ''FALED'')
   \<and> map_of (workflows (snd (execute_workflow None demo_gen 2 demo_engine_failing ''wf''))) ''wf''
       \<noteq> None
   \<and> w_status (the (map_of (workflows
         (snd (execute_workflow None demo_gen 2 demo_engine_failing ''wf''))) ''wf''))
       = WS_RUNNING
   \<and> map (\<lambda>s. (s_status s, s_error s)) (w_steps (the (map_of (workflows
         (snd (execute_workflow None demo_gen 2 demo_engine_failing ''wf''))) ''wf'')))
       = [(FAILED, Some ''Tool not found: missing'')]"
  by code_simp


subsection \<open>C2: the range of a meter\<close>

text \<open>
  C2 asks that progress stays within 0 and 100 and the current step within 0 and the
  total. On a meter of three steps, \<^verbatim>\<open>update_progress\<close> with \<^verbatim>\<open>current_step=5\<close>
  stores the step 5 and the progress 500/3: the step channel assigns its argument and
  the quotient as they are, where the progress channel clamps.
\<close>

theorem C2_step_update_leaves_range:
  "map_of (meters demo_tracker) ''m'' \<noteq> None
   \<and> m_total_steps (the (map_of (meters demo_tracker) ''m'')) = 3
   \<and> fst (update_progress demo_gen 2 demo_tracker ''m'' (Some 5) None None None None)
       = Inr (map_of (meters (snd (update_progress demo_gen 2 demo_tracker ''m'' (Some 5)
                None None None None))) ''m'')
   \<and> m_current_step (the (map_of (meters (snd (update_progress demo_gen 2 demo_tracker ''m''
        (Some 5) None None None None))) ''m'')) = 5
   \<and> m_progress (the (map_of (meters (snd (update_progress demo_gen 2 demo_tracker ''m''
        (Some 5) None None None None))) ''m'')) = 500 / 3
   \<and> m_progress (the (map_of (meters (snd (update_progress demo_gen 2 demo_tracker ''m''
        (Some 5) None None None None))) ''m'')) > 100"
  by code_simp


subsection \<open>C9: operations on an unknown id\<close>

text \<open>
  C9, as the code has it: on an id that is in no table (no task, no workflow, no running
  workflow unit and no meter under it), every query returns \<^verbatim>\<open>None\<close>, every
  mutation returns \<^verbatim>\<open>None\<close> or \<^verbatim>\<open>False\<close>, and all of them leave the state as it
  is; the one exception is \<^verbatim>\<open>execute_workflow\<close>, which raises
  \<^verbatim>\<open>ValueError\<close> (and leaves the state as it is).
\<close>

theorem C9_unknown_id_is_absent:
  assumes "map_of (tasks tm) i = None"
    and "map_of (workflows eng) i = None" and "map_of (running_workflows eng) i = None"
    and "map_of (meters pt) i = None"
  shows "get_task tm i = None
     \<and> update_task_status now tm i status progress result error = (None, tm)
     \<and> delete_task tm i = (False, tm)
     \<and> execute_task now tm i execution_func = (None, tm)
     \<and> get_workflow eng i = None
     \<and> delete_workflow eng i = (False, eng)
     \<and> pause_workflow eng i = (False, eng)
     \<and> cancel_workflow eng i = (False, eng)
     \<and> execute_workflow tool_registry gen now eng i
         = (Inl (ValueError (''Workflow not found: '' @ i)), eng)
     \<and> get_meter pt i = None
     \<and> update_progress gen now pt i current_step meter_progress state message data
         = (Inr None, pt)
     \<and> delete_meter pt i = (False, pt)
     \<and> get_meter_summary round2 now pt i = None"
  using assms
  by (simp add: get_task_def update_task_status_def delete_task_def execute_task_def
      get_workflow_def delete_workflow_def pause_workflow_def cancel_workflow_def
      execute_workflow_def get_meter_def update_progress_def delete_meter_def
      get_meter_summary_def)


theorem C9_witness:
  "map_of (tasks demo_tm) ''nope'' = None
   \<and> map_of (workflows demo_engine_empty) ''nope'' = None
   \<and> map_of (running_workflows demo_engine_empty) ''nope'' = None
   \<and> map_of (meters demo_tracker) ''nope'' = None
   \<and> update_task_status 5 demo_tm ''nope'' COMPLETED None None None = (None, demo_tm)
   \<and> delete_workflow demo_engine_empty ''nope'' = (False, demo_engine_empty)
   \<and> execute_workflow None demo_gen 5 demo_engine_empty ''nope''
       = (Inl (ValueError ''Workflow not found: nope''), demo_engine_empty)
   \<and> update_progress demo_gen 5 demo_tracker ''nope'' (Some 1) None None None None
       = (Inr None, demo_tracker)"
proof -
  have h1: "map_of (tasks demo_tm) ''nope'' = None" by code_simp
  have h2: "map_of (workflows demo_engine_empty) ''nope'' = None" by code_simp
  have h3: "map_of (running_workflows demo_engine_empty) ''nope'' = None" by code_simp
  have h4: "map_of (meters demo_tracker) ''nope'' = None" by code_simp
  from C9_unknown_id_is_absent [OF h1 h2 h3 h4] h1 h2 h3 h4
  show ?thesis by simp
qed

text \<open>C9 as stated includes workflow execute among the operations that never raise; on
  an unknown id it raises.\<close>

theorem C9_counterexample_execute_workflow_raises:
  "execute_workflow None demo_gen 1 init_WorkflowEngine ''nope''
     = (Inl (ValueError ''Workflow not found: nope''), init_WorkflowEngine)"
  by (simp add: execute_workflow_def init_WorkflowEngine_def)


subsection \<open>C10: a workflow without steps\<close>

text \<open>
  C10: executing a workflow of the table (stored under its own id) whose step list is
  empty returns without an exception; the workflow is Completed, its
  \<^verbatim>\<open>completed_at\<close> is the time of the call, its progress is what it was (0 since its
  creation, as the witness shows: the loop body with the division is never run), and
  its unit is no longer registered.
\<close>

theorem C10_empty_workflow_completes_at_progress_zero:
  assumes "map_of (workflows eng) workflow_id = Some w"
    and "w_id w = workflow_id" and "w_steps w = []"
  shows "\<exists>w'. fst (execute_workflow tool_registry gen now eng workflow_id) = Inr w'
           \<and> map_of (workflows (snd (execute_workflow tool_registry gen now eng workflow_id)))
                workflow_id = Some w'
           \<and> w_status w' = WS_COMPLETED \<and> w_completed_at w' = Some now
           \<and> w_progress w' = w_progress w
           \<and> map_of (running_workflows
                (snd (execute_workflow tool_registry gen now eng workflow_id))) workflow_id = None"
  using assms
  by (simp add: execute_workflow_def execute_workflow_task_def Let_def update_conv'
      delete_conv')

theorem C10_witness:
  "map_of (workflows demo_engine_empty) ''wf'' = Some (the (map_of (workflows demo_engine_empty) ''wf''))
   \<and> w_id (the (map_of (workflows demo_engine_empty) ''wf'')) = ''wf''
   \<and> w_steps (the (map_of (workflows demo_engine_empty) ''wf'')) = []
   \<and> (\<exists>w'. fst (execute_workflow None demo_gen 2 demo_engine_empty ''wf'') = Inr w'
         \<and> w_status w' = WS_COMPLETED \<and> w_completed_at w' = Some 2 \<and> w_progress w' = 0)"
proof -
  have h1: "map_of (workflows demo_engine_empty) ''wf''
            = Some (the (map_of (workflows demo_engine_empty) ''wf''))"
    by code_simp
  have h2: "w_id (the (map_of (workflows demo_engine_empty) ''wf'')) = ''wf''"
    by code_simp
  have h3: "w_steps (the (map_of (workflows demo_engine_empty) ''wf'')) = []"
    by code_simp
  have h4: "w_progress (the (map_of (workflows demo_engine_empty) ''wf'')) = 0"
    by code_simp
  from C10_empty_workflow_completes_at_progress_zero [OF h1 h2 h3, of None demo_gen 2] h4
  have "\<exists>w'. fst (execute_workflow None demo_gen 2 demo_engine_empty ''wf'') = Inr w'
         \<and> w_status w' = WS_COMPLETED \<and> w_completed_at w' = Some 2 \<and> w_progress w' = 0"
    by auto
  with h1 h2 h3 show ?thesis by blast
qed

end
